theory Spec2Isabelle
  imports Complex_Main
begin

section \<open>Delivery fee (utils/helpers)\<close>

text \<open>
  JavaScript numbers that stand for money, litres and kilometres are modelled as exact
  rationals: the store keeps them in DECIMAL columns.
\<close>

text \<open>\<^verbatim>\<open>Math.ceil\<close> on a finite number.\<close>

definition Math_ceil :: "rat \<Rightarrow> rat" where
  "Math_ceil x = of_int \<lceil>x\<rceil>"

text \<open>
  \<^verbatim>\<open>calculateDeliveryFee\<close>: base fee UGX 2000, plus UGX 2000 for every started
  kilometre.
\<close>

definition calculateDeliveryFee :: "rat \<Rightarrow> rat" where
  "calculateDeliveryFee distanceKm =
     (let baseFee = 2000; perKmFee = 2000
      in baseFee + (perKmFee * Math_ceil distanceKm))"

section \<open>Strings\<close>

text \<open>
  Strings are lists of bytes. \<^verbatim>\<open>String.prototype.toLowerCase\<close> is modelled on the
  ASCII letters; every other byte is left as it is.
\<close>

definition toLowerCase_char :: "char \<Rightarrow> char" where
  "toLowerCase_char c =
     (let n = (of_char c :: nat) in if 65 \<le> n \<and> n \<le> 90 then char_of (n + 32) else c)"

definition toLowerCase :: "string \<Rightarrow> string" where
  "toLowerCase s = map toLowerCase_char s"

fun startsWith :: "string \<Rightarrow> string \<Rightarrow> bool" where
  "startsWith s [] = True"
| "startsWith [] (c # t) = False"
| "startsWith (a # s) (c # t) = (a = c \<and> startsWith s t)"

text \<open>\<^verbatim>\<open>s.includes(t)\<close>: \<open>t\<close> occurs in \<open>s\<close> as a contiguous piece.\<close>

fun includes_str :: "string \<Rightarrow> string \<Rightarrow> bool" where
  "includes_str [] t = (t = [])"
| "includes_str (a # s) t = (startsWith (a # s) t \<or> includes_str s t)"

text \<open>\<^verbatim>\<open>xs.join(sep)\<close> on an array of strings.\<close>

fun join :: "string \<Rightarrow> string list \<Rightarrow> string" where
  "join sep [] = []"
| "join sep [x] = x"
| "join sep (x # y # ys) = x @ sep @ join sep (y # ys)"

section \<open>JSON column values\<close>

text \<open>
  The columns \<^verbatim>\<open>ingredients\<close>, \<^verbatim>\<open>health_benefits\<close>,
  \<^verbatim>\<open>recommended_ingredients\<close> and \<^verbatim>\<open>avoid_ingredients\<close> are JSONB: the
  store may hand back any JSON value, and the code guards for that. Of a JSON object
  the code can observe one thing only, whether its \<^verbatim>\<open>length\<close> member compares
  greater than zero; \<open>JObj\<close> carries that bit.
\<close>

datatype jsonb =
  JNull | JBool bool | JNum rat | JStr string | JArr "jsonb list" | JObj bool

text \<open>JavaScript truthiness of a JSON value.\<close>

fun truthy :: "jsonb \<Rightarrow> bool" where
  "truthy JNull = False"
| "truthy (JBool b) = b"
| "truthy (JNum n) = (n \<noteq> 0)"
| "truthy (JStr s) = (s \<noteq> [])"
| "truthy (JArr xs) = True"
| "truthy (JObj l) = True"

text \<open>\<^verbatim>\<open>x && Array.isArray(x)\<close>: the elements when \<open>x\<close> is an array.\<close>

fun asArray :: "jsonb \<Rightarrow> jsonb list option" where
  "asArray (JArr xs) = Some xs"
| "asArray _ = None"

text \<open>
  \<^verbatim>\<open>x.length > 0\<close>. Reading a member of \<^verbatim>\<open>null\<close> throws; a number or a
  boolean has no \<^verbatim>\<open>length\<close>, and \<^verbatim>\<open>undefined > 0\<close> is false.
\<close>

fun length_positive :: "jsonb \<Rightarrow> bool option" where
  "length_positive JNull = None"
| "length_positive (JStr s) = Some (s \<noteq> [])"
| "length_positive (JArr xs) = Some (xs \<noteq> [])"
| "length_positive (JObj l) = Some l"
| "length_positive _ = Some False"

section \<open>The store and its environment\<close>

record product =
  products_id :: string
  name :: string
  price_per_litre :: rat
  ingredients :: jsonb
  health_benefits :: jsonb
  is_available :: bool

record symptom_mapping =
  symptom :: string
  recommended_ingredients :: jsonb
  avoid_ingredients :: jsonb
  description :: string

datatype status = pending | confirmed | preparing | out_for_delivery | delivered | cancelled

record address =
  street :: string
  city :: string
  district :: string

text \<open>The members a request body and an order row share.\<close>

record delivery =
  delivery_address :: address
  delivery_lat :: rat
  delivery_lng :: rat
  payment_method :: "string option"
  order_notes :: "string option"

record item =
  product_id :: string
  quantity_litres :: rat

record priced_item = item +
  unit_price :: rat
  subtotal :: rat

record order_item = priced_item +
  order_id :: string

record rider =
  rider_name :: string
  phone :: string
  rating :: rat

text \<open>
  An order row. The column \<^verbatim>\<open>estimated_delivery_time\<close>, a wall-clock date, is left
  out: none of the operations below reads it.
\<close>

record order = delivery +
  orders_id :: string
  user_id :: string
  order_outlet_id :: string
  total_amount :: rat
  delivery_fee :: rat
  rider_info :: rider
  status :: status

text \<open>The tables of the store that the handlers read and write.\<close>

record store =
  products :: "product list"
  symptoms_ingredients :: "symptom_mapping list"
  orders :: "order list"
  order_items :: "order_item list"

text \<open>
  A handler's outcome: the HTTP status with the message, and the data of a success. An
  operation that throws (a \<^verbatim>\<open>TypeError\<close> on a value of the wrong shape) is
  \<open>None\<close> in the helper functions, and the handler's \<^verbatim>\<open>catch\<close> turns it into
  status 500.
\<close>

datatype 'a response = Failure nat string | Success nat string 'a

text \<open>The calls a handler makes to the store; each may come back with an error.\<close>

datatype store_call =
    RpcNearestOutlet | SelectProduct | InsertOrder | InsertOrderItems | DeleteOrder
  | SelectCompleteOrder | SelectOrder | UpdateOrder | SelectSymptoms | SelectProducts

text \<open>
  What a request meets outside the code: which store calls come back with an error, what
  the \<^verbatim>\<open>get_nearest_outlet\<close> function of the database answers, the values
  \<^verbatim>\<open>Math.random\<close> draws, and the id the database gives the next order row.
\<close>

record outlet_hit =
  outlet_id :: string
  outlet_name :: string
  outlet_address :: string
  distance_km :: rat

record env =
  faults :: "store_call \<Rightarrow> bool"
  get_nearest_outlet :: "rat \<Rightarrow> rat \<Rightarrow> outlet_hit option"
  draws :: "nat list"
  new_order_id :: string

section \<open>Recommendation controller\<close>

text \<open>\<^verbatim>\<open>xs.forEach(ingredient => S.add(ingredient.toLowerCase()))\<close>\<close>

fun addLower :: "jsonb list \<Rightarrow> string set \<Rightarrow> string set option" where
  "addLower [] S = Some S"
| "addLower (JStr ingredient # xs) S = addLower xs (insert (toLowerCase ingredient) S)"
| "addLower (_ # xs) S = None"

text \<open>\<^verbatim>\<open>if (field) { field.forEach(...) }\<close>\<close>

definition addField :: "jsonb \<Rightarrow> string set \<Rightarrow> string set option" where
  "addField field S =
     (if truthy field then (case field of JArr xs \<Rightarrow> addLower xs S | _ \<Rightarrow> None) else Some S)"

text \<open>
  The loop over the matched mappings: the pair is (\<^verbatim>\<open>recommendedIngredients\<close>,
  \<^verbatim>\<open>avoidIngredients\<close>).
\<close>

fun collectMappings ::
  "symptom_mapping list \<Rightarrow> string set \<times> string set \<Rightarrow> (string set \<times> string set) option" where
  "collectMappings [] (R, A) = Some (R, A)"
| "collectMappings (m # ms) (R, A) =
     (case addField (recommended_ingredients m) R of
        None \<Rightarrow> None
      | Some R' \<Rightarrow>
          (case addField (avoid_ingredients m) A of
             None \<Rightarrow> None
           | Some A' \<Rightarrow> collectMappings ms (R', A')))"

text \<open>
  The loop over a product's ingredients; the accumulator is (\<^verbatim>\<open>score\<close>,
  \<^verbatim>\<open>matchedIngredients\<close>, \<^verbatim>\<open>hasAvoidedIngredients\<close>).
\<close>

fun scoreIngredients ::
  "string set \<Rightarrow> string set \<Rightarrow> jsonb list \<Rightarrow> int \<times> string list \<times> bool
     \<Rightarrow> (int \<times> string list \<times> bool) option" where
  "scoreIngredients R A [] acc = Some acc"
| "scoreIngredients R A (JStr ingredient # xs) (score, matched, avoided) =
     (let lowerIngredient = toLowerCase ingredient;
          (score1, avoided1) =
             (if lowerIngredient \<in> A then (score - 10, True) else (score, avoided));
          (score2, matched2) =
             (if lowerIngredient \<in> R then (score1 + 5, matched @ [ingredient])
              else (score1, matched))
      in scoreIngredients R A xs (score2, matched2, avoided1))"
| "scoreIngredients R A (_ # xs) acc = None"

definition benefitMatches :: "string \<Rightarrow> string \<Rightarrow> bool" where
  "benefitMatches lowerBenefit smp =
     (includes_str lowerBenefit (toLowerCase smp) \<or> includes_str (toLowerCase smp) lowerBenefit)"

text \<open>\<^verbatim>\<open>symptoms.forEach(symptom => { if (...) score += 3 })\<close>\<close>

fun scoreSymptoms :: "string \<Rightarrow> string list \<Rightarrow> int \<Rightarrow> int" where
  "scoreSymptoms lowerBenefit [] score = score"
| "scoreSymptoms lowerBenefit (smp # ss) score =
     scoreSymptoms lowerBenefit ss
       (if benefitMatches lowerBenefit smp then score + 3 else score)"

fun scoreBenefits :: "string list \<Rightarrow> jsonb list \<Rightarrow> int \<Rightarrow> int option" where
  "scoreBenefits symptoms [] score = Some score"
| "scoreBenefits symptoms (JStr benefit # bs) score =
     scoreBenefits symptoms bs (scoreSymptoms (toLowerCase benefit) symptoms score)"
| "scoreBenefits symptoms (_ # bs) score = None"

text \<open>
  The test of \<^verbatim>\<open>healthBenefits.filter(benefit => symptoms.some(...))\<close>:
  \<^verbatim>\<open>some\<close> never calls its function on an empty array, so a benefit that is not
  a string throws only when there is a symptom to compare it with.
\<close>

fun relevantBenefits :: "string list \<Rightarrow> jsonb list \<Rightarrow> string list option" where
  "relevantBenefits symptoms [] = Some []"
| "relevantBenefits symptoms (JStr benefit # bs) =
     (case relevantBenefits symptoms bs of
        None \<Rightarrow> None
      | Some rs \<Rightarrow>
          Some (if \<exists>smp \<in> set symptoms.
                     includes_str (toLowerCase benefit) (toLowerCase smp)
                     \<or> includes_str (toLowerCase smp) (toLowerCase benefit)
                then benefit # rs else rs))"
| "relevantBenefits symptoms (_ # bs) =
     (if symptoms = [] then relevantBenefits symptoms bs else None)"

text \<open>
  \<^verbatim>\<open>generateRecommendationReasons\<close>. Its second argument is
  \<^verbatim>\<open>product.health_benefits || []\<close>; a value with a positive length that is not an
  array has no \<^verbatim>\<open>filter\<close> method, and the call throws.
\<close>

definition generateRecommendationReasons ::
  "string list \<Rightarrow> jsonb \<Rightarrow> string list \<Rightarrow> string list option" where
  "generateRecommendationReasons matchedIngredients healthBenefits symptoms =
     (let reasons1 =
            (if matchedIngredients \<noteq> []
             then [''Contains beneficial ingredients: '' @ join '', '' matchedIngredients]
             else [])
      in case (case length_positive healthBenefits of
                 None \<Rightarrow> None
               | Some True \<Rightarrow>
                   (case healthBenefits of
                      JArr bs \<Rightarrow>
                        map_option
                          (\<lambda>rs. if rs \<noteq> [] then reasons1 @ [''Supports: '' @ join '', '' rs]
                                else reasons1)
                          (relevantBenefits symptoms bs)
                    | _ \<Rightarrow> None)
               | Some False \<Rightarrow> Some reasons1) of
           None \<Rightarrow> None
         | Some reasons2 \<Rightarrow>
             Some (if reasons2 = [] then [''Nutritious and refreshing choice''] else reasons2))"

text \<open>An entry of the answer: the product row with the four added members.\<close>

record recommendation =
  product :: product
  recommendation_score :: int
  matched_ingredients :: "string list"
  has_avoided_ingredients :: bool
  recommendation_reasons :: "string list"

text \<open>The body of \<^verbatim>\<open>products.map(product => ...)\<close>.\<close>

definition scoreProduct ::
  "string set \<Rightarrow> string set \<Rightarrow> string list \<Rightarrow> product \<Rightarrow> recommendation option" where
  "scoreProduct R A symptoms p =
     (case (case asArray (ingredients p) of
              Some xs \<Rightarrow> scoreIngredients R A xs (0, [], False)
            | None \<Rightarrow> Some (0, [], False)) of
        None \<Rightarrow> None
      | Some (score1, matchedIngredients, hasAvoidedIngredients) \<Rightarrow>
          (case (case asArray (health_benefits p) of
                   Some bs \<Rightarrow> scoreBenefits symptoms bs score1
                 | None \<Rightarrow> Some score1) of
             None \<Rightarrow> None
           | Some score \<Rightarrow>
               (case generateRecommendationReasons matchedIngredients
                       (if truthy (health_benefits p) then health_benefits p else JArr [])
                       symptoms of
                  None \<Rightarrow> None
                | Some reasons \<Rightarrow>
                    Some \<lparr> product = p,
                           recommendation_score = score,
                           matched_ingredients = matchedIngredients,
                           has_avoided_ingredients = hasAvoidedIngredients,
                           recommendation_reasons = reasons \<rparr>)))"

text \<open>\<^verbatim>\<open>xs.map(f)\<close> where \<open>f\<close> may throw: the first throw ends the loop.\<close>

fun map_throwing :: "('a \<Rightarrow> 'b option) \<Rightarrow> 'a list \<Rightarrow> 'b list option" where
  "map_throwing f [] = Some []"
| "map_throwing f (x # xs) =
     (case f x of
        None \<Rightarrow> None
      | Some y \<Rightarrow> (case map_throwing f xs of None \<Rightarrow> None | Some ys \<Rightarrow> Some (y # ys)))"

text \<open>\<^verbatim>\<open>xs.filter(f)\<close> where \<open>f\<close> may throw.\<close>

fun filter_throwing :: "('a \<Rightarrow> bool option) \<Rightarrow> 'a list \<Rightarrow> 'a list option" where
  "filter_throwing f [] = Some []"
| "filter_throwing f (x # xs) =
     (case f x of
        None \<Rightarrow> None
      | Some b \<Rightarrow>
          (case filter_throwing f xs of
             None \<Rightarrow> None
           | Some ys \<Rightarrow> Some (if b then x # ys else ys)))"

text \<open>
  The scored path: drop the flagged and the non-positive, sort by score descending
  (\<^verbatim>\<open>Array.prototype.sort\<close> is stable, as \<^const>\<open>sort_key\<close> is), keep three.
\<close>

definition filteredProducts :: "recommendation list \<Rightarrow> recommendation list" where
  "filteredProducts scoredProducts =
     take 3
       (sort_key (\<lambda>r. - recommendation_score r)
          (filter (\<lambda>r. \<not> has_avoided_ingredients r \<and> recommendation_score r > 0)
             scoredProducts))"

text \<open>\<^verbatim>\<open>ingredients.some(ingredient => avoidIngredients.has(ingredient.toLowerCase()))\<close>\<close>

fun someAvoided :: "string set \<Rightarrow> jsonb list \<Rightarrow> bool option" where
  "someAvoided A [] = Some False"
| "someAvoided A (JStr ingredient # xs) =
     (if toLowerCase ingredient \<in> A then Some True else someAvoided A xs)"
| "someAvoided A (_ # xs) = None"

text \<open>The test of the fallback's filter.\<close>

definition noAvoided :: "string set \<Rightarrow> product \<Rightarrow> bool option" where
  "noAvoided A p =
     (case asArray (ingredients p) of
        Some xs \<Rightarrow> map_option Not (someAvoided A xs)
      | None \<Rightarrow> Some True)"

text \<open>
  \<^verbatim>\<open>.sort(() => Math.random() - 0.5)\<close>: the comparator ignores its arguments, so the
  order that comes out is a permutation picked by the random draws. The model inserts
  each element at the place its draw names; every permutation arises from some draws.
\<close>

fun randomOrder :: "nat list \<Rightarrow> 'a list \<Rightarrow> 'a list" where
  "randomOrder ds [] = []"
| "randomOrder ds (x # xs) =
     (let ys = randomOrder (tl ds) xs;
          k = (case ds of [] \<Rightarrow> 0 | d # _ \<Rightarrow> d mod (length ys + 1))
      in take k ys @ x # drop k ys)"

text \<open>The entry the fallback makes of a product.\<close>

definition general_entry :: "product \<Rightarrow> recommendation" where
  "general_entry p =
     \<lparr> product = p,
       recommendation_score = 1,
       matched_ingredients = [],
       has_avoided_ingredients = False,
       recommendation_reasons =
         [''General wellness support'', ''No conflicting ingredients''] \<rparr>"

definition generalRecommendations ::
  "nat list \<Rightarrow> string set \<Rightarrow> product list \<Rightarrow> recommendation list option" where
  "generalRecommendations ds A ps =
     map_option (\<lambda>kept. map general_entry (take 3 (randomOrder ds kept)))
       (filter_throwing (noAvoided A) ps)"

text \<open>
  \<^verbatim>\<open>getRecommendations\<close>, on a body that passed the route's validation (two
  arrays of strings). The query \<^verbatim>\<open>.in('symptom', symptoms.map(s => s.toLowerCase()))\<close>
  keeps the rows whose \<^verbatim>\<open>symptom\<close> column is one of the listed values.
\<close>

record recommendation_data =
  recommendations :: "recommendation list"
  symptoms_analyzed :: "string list"
  allergies_considered :: "string list"
  total_products_analyzed :: nat
  symptom_mappings_found :: "nat option"

definition select_symptom_mappings :: "symptom_mapping list \<Rightarrow> string list \<Rightarrow> symptom_mapping list" where
  "select_symptom_mappings table symptoms =
     filter (\<lambda>m. symptom m \<in> set (map toLowerCase symptoms)) table"

definition getRecommendations ::
  "env \<Rightarrow> store \<Rightarrow> string list \<Rightarrow> string list \<Rightarrow> recommendation_data response" where
  "getRecommendations e st symptoms allergies =
     (if symptoms = [] then Failure 400 ''At least one symptom is required''
      else if faults e SelectSymptoms then Failure 500 ''Failed to fetch symptom mappings''
      else
        let symptomMappings = select_symptom_mappings (symptoms_ingredients st) symptoms in
        case collectMappings symptomMappings ({}, {}) of
          None \<Rightarrow> Failure 500 ''Internal server error''
        | Some (recommendedIngredients, avoid0) \<Rightarrow>
            let avoidIngredients = avoid0 \<union> set (map toLowerCase allergies) in
            if faults e SelectProducts then Failure 500 ''Failed to fetch products''
            else
              let available = filter is_available (products st) in
              case map_throwing (scoreProduct recommendedIngredients avoidIngredients symptoms)
                     available of
                None \<Rightarrow> Failure 500 ''Internal server error''
              | Some scoredProducts \<Rightarrow>
                  if filteredProducts scoredProducts = [] then
                    (case generalRecommendations (draws e) avoidIngredients available of
                       None \<Rightarrow> Failure 500 ''Internal server error''
                     | Some general \<Rightarrow>
                         Success 200
                           ''No specific matches found. Here are some general recommendations.''
                           \<lparr> recommendations = general,
                             symptoms_analyzed = symptoms,
                             allergies_considered = allergies,
                             total_products_analyzed = length available,
                             symptom_mappings_found = None \<rparr>)
                  else
                    Success 200 ''Recommendations generated successfully''
                      \<lparr> recommendations = filteredProducts scoredProducts,
                        symptoms_analyzed = symptoms,
                        allergies_considered = allergies,
                        total_products_analyzed = length available,
                        symptom_mappings_found = Some (length symptomMappings) \<rparr>)"

section \<open>Order controller\<close>

record order_body = delivery +
  items :: "item list"

text \<open>\<^verbatim>\<open>.single()\<close>: exactly one row, or an error.\<close>

fun single :: "'a list \<Rightarrow> 'a option" where
  "single [x] = Some x"
| "single _ = None"

text \<open>
  \<^verbatim>\<open>from('products').select('*').eq('id', id).eq('is_available', true).single()\<close>;
  \<open>None\<close> stands for \<^verbatim>\<open>productError || !product\<close>.
\<close>

definition select_product :: "env \<Rightarrow> store \<Rightarrow> string \<Rightarrow> product option" where
  "select_product e st pid =
     (if faults e SelectProduct then None
      else single (filter (\<lambda>p. products_id p = pid \<and> is_available p) (products st)))"

text \<open>
  The loop over the requested items: the accumulator is (\<^verbatim>\<open>totalAmount\<close>,
  \<^verbatim>\<open>orderItems\<close>); \<open>Inl\<close> is the early return for a product that is missing.
\<close>

fun priceItems ::
  "env \<Rightarrow> store \<Rightarrow> item list \<Rightarrow> rat \<times> priced_item list \<Rightarrow> string + rat \<times> priced_item list" where
  "priceItems e st [] acc = Inr acc"
| "priceItems e st (it # its) (totalAmount, orderItems) =
     (case select_product e st (product_id it) of
        None \<Rightarrow> Inl (product_id it)
      | Some p \<Rightarrow>
          (let sub = price_per_litre p * quantity_litres it
           in priceItems e st its
                (totalAmount + sub,
                 orderItems @ [\<lparr> product_id = product_id it,
                                 quantity_litres = quantity_litres it,
                                 unit_price = price_per_litre p,
                                 subtotal = sub \<rparr>])))"

definition riders :: "rider list" where
  "riders =
     [\<lparr> rider_name = ''Kato'', phone = ''+256700123456'', rating = 48 / 10 \<rparr>,
      \<lparr> rider_name = ''Nakato'', phone = ''+256700123457'', rating = 49 / 10 \<rparr>,
      \<lparr> rider_name = ''Ssemakula'', phone = ''+256700123458'', rating = 47 / 10 \<rparr>,
      \<lparr> rider_name = ''Namukasa'', phone = ''+256700123459'', rating = 46 / 10 \<rparr>,
      \<lparr> rider_name = ''Mukasa'', phone = ''+256700123460'', rating = 48 / 10 \<rparr>]"

text \<open>\<^verbatim>\<open>riders[Math.floor(Math.random() * riders.length)]\<close>\<close>

definition generateRiderInfo :: "nat list \<Rightarrow> rider" where
  "generateRiderInfo ds = riders ! ((case ds of [] \<Rightarrow> 0 | d # _ \<Rightarrow> d) mod length riders)"

text \<open>\<^verbatim>\<open>a || b\<close> on a string that may be absent: the empty string is falsy.\<close>

definition or_string :: "string option \<Rightarrow> string option \<Rightarrow> string option" where
  "or_string a b = (case a of Some s \<Rightarrow> if s = [] then b else Some s | None \<Rightarrow> b)"

text \<open>\<^verbatim>\<open>a || b\<close> on a number that may be absent: zero is falsy.\<close>

definition or_number :: "rat option \<Rightarrow> rat \<Rightarrow> rat" where
  "or_number a b = (case a of Some x \<Rightarrow> if x = 0 then b else x | None \<Rightarrow> b)"

text \<open>\<^verbatim>\<open>a || b\<close> on an object that may be absent: an object is truthy.\<close>

definition or_object :: "'a option \<Rightarrow> 'a \<Rightarrow> 'a" where
  "or_object a b = (case a of Some x \<Rightarrow> x | None \<Rightarrow> b)"

text \<open>
  \<^verbatim>\<open>from('orders').insert([row]).select().single()\<close>: the row comes back, unless
  the call fails; the primary key refuses an id already in the table.
\<close>

definition insert_order :: "env \<Rightarrow> store \<Rightarrow> order \<Rightarrow> (order \<times> store) option" where
  "insert_order e st row =
     (if faults e InsertOrder \<or> orders_id row \<in> set (map orders_id (orders st)) then None
      else Some (row, st\<lparr> orders := orders st @ [row] \<rparr>))"

text \<open>\<^verbatim>\<open>from('order_items').insert(rows)\<close>: all rows or none.\<close>

definition insert_order_items :: "env \<Rightarrow> store \<Rightarrow> order_item list \<Rightarrow> store option" where
  "insert_order_items e st rows =
     (if faults e InsertOrderItems then None
      else Some (st\<lparr> order_items := order_items st @ rows \<rparr>))"

text \<open>
  \<^verbatim>\<open>from('orders').delete().eq('id', id)\<close>: the row goes, with the items that
  reference it (\<^verbatim>\<open>ON DELETE CASCADE\<close>), unless the call fails. The handler does not
  look at the outcome, so the store is all the call gives back.
\<close>

definition delete_order :: "env \<Rightarrow> store \<Rightarrow> string \<Rightarrow> store" where
  "delete_order e st oid =
     (if faults e DeleteOrder then st
      else st\<lparr> orders := filter (\<lambda>r. orders_id r \<noteq> oid) (orders st),
               order_items := filter (\<lambda>i. order_id i \<noteq> oid) (order_items st) \<rparr>)"

text \<open>
  The data of a created order: the joined order of the last query, or the bare header
  when that query fails (\<^verbatim>\<open>completeOrder || order\<close>).
\<close>

datatype order_data = Bare order | Complete order "order_item list"

definition select_complete_order :: "env \<Rightarrow> store \<Rightarrow> string \<Rightarrow> order_data option" where
  "select_complete_order e st oid =
     (if faults e SelectCompleteOrder then None
      else map_option (\<lambda>r. Complete r (filter (\<lambda>i. order_id i = oid) (order_items st)))
             (single (filter (\<lambda>r. orders_id r = oid) (orders st))))"

text \<open>\<^verbatim>\<open>{ ...item, order_id: order.id }\<close>\<close>

definition with_order_id :: "string \<Rightarrow> priced_item \<Rightarrow> order_item" where
  "with_order_id oid i =
     \<lparr> product_id = product_id i,
       quantity_litres = quantity_litres i,
       unit_price = unit_price i,
       subtotal = subtotal i,
       order_id = oid \<rparr>"

text \<open>\<^verbatim>\<open>createOrder\<close>: the outcome and the store it leaves.\<close>

definition createOrder :: "env \<Rightarrow> store \<Rightarrow> string \<Rightarrow> order_body \<Rightarrow> order_data response \<times> store" where
  "createOrder e st userId body =
     (case (if faults e RpcNearestOutlet then None
            else get_nearest_outlet e (delivery_lat body) (delivery_lng body)) of
        None \<Rightarrow> (Failure 400 ''No outlets available in your area'', st)
      | Some nearestOutlet \<Rightarrow>
          (let deliveryFee = calculateDeliveryFee (distance_km nearestOutlet) in
           case priceItems e st (items body) (0, []) of
             Inl pid \<Rightarrow> (Failure 400 (''Product '' @ pid @ '' not found or unavailable''), st)
           | Inr (itemsAmount, orderItems) \<Rightarrow>
               (let totalAmount = itemsAmount + deliveryFee in
                case insert_order e st
                       \<lparr> delivery_address = delivery_address body,
                         delivery_lat = delivery_lat body,
                         delivery_lng = delivery_lng body,
                         payment_method = or_string (payment_method body) (Some ''cash''),
                         order_notes = or_string (order_notes body) None,
                         orders_id = new_order_id e,
                         user_id = userId,
                         order_outlet_id = outlet_id nearestOutlet,
                         total_amount = totalAmount,
                         delivery_fee = deliveryFee,
                         rider_info = generateRiderInfo (draws e),
                         status = pending \<rparr> of
                  None \<Rightarrow> (Failure 500 ''Failed to create order'', st)
                | Some (order, st1) \<Rightarrow>
                    (let orderItemsWithOrderId = map (with_order_id (orders_id order)) orderItems
                     in case insert_order_items e st1 orderItemsWithOrderId of
                          None \<Rightarrow>
                            (Failure 500 ''Failed to create order items'',
                             delete_order e st1 (orders_id order))
                        | Some st2 \<Rightarrow>
                            (Success 201 ''Order created successfully''
                               (case select_complete_order e st2 (orders_id order) of
                                  Some completeOrder \<Rightarrow> completeOrder
                                | None \<Rightarrow> Bare order),
                             st2)))))"

text \<open>
  \<^verbatim>\<open>from('orders').select(...).eq('id', id).eq('user_id', userId).single()\<close>;
  \<open>None\<close> stands for \<^verbatim>\<open>fetchError || !order\<close>.
\<close>

definition select_order :: "env \<Rightarrow> store \<Rightarrow> string \<Rightarrow> string \<Rightarrow> order option" where
  "select_order e st oid userId =
     (if faults e SelectOrder then None
      else single (filter (\<lambda>r. orders_id r = oid \<and> user_id r = userId) (orders st)))"



text \<open>The body of a reorder request: every member may be absent.\<close>

record reorder_body =
  new_delivery_address :: "address option"
  new_delivery_lat :: "rat option"
  new_delivery_lng :: "rat option"
  new_payment_method :: "string option"

text \<open>
  \<^verbatim>\<open>newOrderData\<close>, from the original order, its items and the request body.
\<close>

definition newOrderData :: "order \<Rightarrow> order_item list \<Rightarrow> reorder_body \<Rightarrow> order_body" where
  "newOrderData originalOrder original_items body =
     \<lparr> delivery_address =
         or_object (new_delivery_address body) (delivery_address originalOrder),
       delivery_lat = or_number (new_delivery_lat body) (delivery_lat originalOrder),
       delivery_lng = or_number (new_delivery_lng body) (delivery_lng originalOrder),
       payment_method =
         or_string (new_payment_method body) (payment_method originalOrder),
       order_notes = None,
       items =
         map (\<lambda>i. \<lparr> product_id = product_id i, quantity_litres = quantity_litres i \<rparr>)
           original_items \<rparr>"

text \<open>\<^verbatim>\<open>reorder\<close>: the original order is looked up, then \<^verbatim>\<open>createOrder\<close> runs.\<close>

definition reorder ::
  "env \<Rightarrow> store \<Rightarrow> string \<Rightarrow> string \<Rightarrow> reorder_body \<Rightarrow> order_data response \<times> store" where
  "reorder e st userId oid body =
     (case select_order e st oid userId of
        None \<Rightarrow> (Failure 404 ''Original order not found'', st)
      | Some originalOrder \<Rightarrow>
          createOrder e st userId
            (newOrderData originalOrder
               (filter (\<lambda>i. order_id i = oid) (order_items st)) body))"

section \<open>Reading an outcome\<close>


text \<open>The list of recommendations an outcome carries; a failure carries none.\<close>

fun answers :: "recommendation_data response \<Rightarrow> recommendation list" where
  "answers (Success n msg d) = recommendations d"
| "answers (Failure n msg) = []"


text \<open>
  The strings of a JSON array; a value that is not an array has none: this is how the
  code reads a list of ingredients or of health benefits.
\<close>

definition strings_of :: "jsonb \<Rightarrow> string list" where
  "strings_of v =
     (case v of
        JArr xs \<Rightarrow> concat (map (\<lambda>x. case x of JStr s \<Rightarrow> [s] | _ \<Rightarrow> []) xs)
      | _ \<Rightarrow> [])"

text \<open>No ingredient of the product is, case-folded, in the set \<open>A\<close>.\<close>

definition free_of :: "string set \<Rightarrow> product \<Rightarrow> bool" where
  "free_of A p = (\<forall>i \<in> set (strings_of (ingredients p)). toLowerCase i \<notin> A)"

text \<open>
  The avoid set of a request: the \<^verbatim>\<open>avoid_ingredients\<close> of the matched mappings and
  the caller's allergies, case-folded.
\<close>

definition avoided_by :: "symptom_mapping list \<Rightarrow> string list \<Rightarrow> string set" where
  "avoided_by matched allergies =
     set (map toLowerCase
            (concat (map (\<lambda>m. strings_of (avoid_ingredients m)) matched) @ allergies))"


text \<open>
  The number of pairs of a health benefit of the product and a requested symptom where
  one text contains the other.
\<close>

definition text_matches :: "string list \<Rightarrow> product \<Rightarrow> nat" where
  "text_matches symptoms p =
     length (filter (\<lambda>(b, s). benefitMatches (toLowerCase b) s)
               (List.product (strings_of (health_benefits p)) symptoms))"

section \<open>Sample rows\<close>

text \<open>Rows of the schema's sample data, and a request environment without faults.\<close>

definition mango_tango :: product where
  "mango_tango =
     \<lparr> products_id = ''mango-tango'', name = ''Mango Tango'', price_per_litre = 15000,
       ingredients = JArr [JStr ''mango'', JStr ''passion fruit'', JStr ''ginger'', JStr ''water''],
       health_benefits = JArr [JStr ''vitamin_c'', JStr ''antioxidants'', JStr ''digestive_health''],
       is_available = True \<rparr>"

definition green_revitalizer :: product where
  "green_revitalizer =
     \<lparr> products_id = ''green-revitalizer'', name = ''Green Revitalizer'',
       price_per_litre = 18000,
       ingredients = JArr [JStr ''spinach'', JStr ''cucumber'', JStr ''apple'', JStr ''lemon'',
                           JStr ''water''],
       health_benefits = JArr [JStr ''detox'', JStr ''iron'', JStr ''vitamin_k'', JStr ''hydration''],
       is_available = True \<rparr>"

definition citrus_sunrise :: product where
  "citrus_sunrise =
     \<lparr> products_id = ''citrus-sunrise'', name = ''Citrus Sunrise'', price_per_litre = 12000,
       ingredients = JArr [JStr ''orange'', JStr ''grapefruit'', JStr ''lime'', JStr ''mint'',
                           JStr ''water''],
       health_benefits = JArr [JStr ''vitamin_c'', JStr ''immunity_boost'', JStr ''energy''],
       is_available = True \<rparr>"

definition berry_blast :: product where
  "berry_blast =
     \<lparr> products_id = ''berry-blast'', name = ''Berry Blast'', price_per_litre = 20000,
       ingredients = JArr [JStr ''strawberry'', JStr ''blueberry'', JStr ''raspberry'',
                           JStr ''banana'', JStr ''coconut water''],
       health_benefits = JArr [JStr ''antioxidants'', JStr ''heart_health'', JStr ''brain_function''],
       is_available = True \<rparr>"

definition immunity_boost :: product where
  "immunity_boost =
     \<lparr> products_id = ''immunity-boost'', name = ''Immunity Boost'', price_per_litre = 17000,
       ingredients = JArr [JStr ''carrot'', JStr ''orange'', JStr ''turmeric'', JStr ''ginger'',
                           JStr ''water''],
       health_benefits = JArr [JStr ''immunity'', JStr ''anti_inflammatory'', JStr ''vitamin_a'',
                               JStr ''vitamin_c''],
       is_available = True \<rparr>"

definition sample_products :: "product list" where
  "sample_products =
     [mango_tango, green_revitalizer, citrus_sunrise, berry_blast, immunity_boost]"

definition flu_mapping :: symptom_mapping where
  "flu_mapping =
     \<lparr> symptom = ''flu'',
       recommended_ingredients =
         JArr [JStr ''orange'', JStr ''ginger'', JStr ''turmeric'', JStr ''lemon'', JStr ''carrot''],
       avoid_ingredients = JArr [JStr ''dairy''],
       description = ''Vitamin C and anti-inflammatory ingredients help fight flu symptoms'' \<rparr>"



text \<open>A product whose ingredients were stored as one string, not as an array.\<close>

definition peanut_smoothie :: product where
  "peanut_smoothie =
     \<lparr> products_id = ''peanut-smoothie'', name = ''Peanut Smoothie'', price_per_litre = 16000,
       ingredients = JStr ''peanut, banana'',
       health_benefits = JArr [JStr ''energy''],
       is_available = True \<rparr>"

definition kampala_central :: outlet_hit where
  "kampala_central =
     \<lparr> outlet_id = ''kampala-central'', outlet_name = ''Fruity Gulp Kampala Central'',
       outlet_address = ''Plot 123, Kampala Road, Kampala'', distance_km = 3 \<rparr>"

definition sample_env :: env where
  "sample_env =
     \<lparr> faults = (\<lambda>c. False),
       get_nearest_outlet = (\<lambda>lat lng. Some kampala_central),
       draws = [],
       new_order_id = ''order-2'' \<rparr>"




definition sample_address :: address where
  "sample_address =
     \<lparr> street = ''Plot 7, Acacia Avenue'', city = ''Kampala'', district = ''Central'' \<rparr>"


definition sample_store :: store where
  "sample_store =
     \<lparr> products = sample_products, symptoms_ingredients = [flu_mapping],
       orders = [], order_items = [] \<rparr>"


definition peanut_store :: store where
  "peanut_store = sample_store\<lparr> products := [peanut_smoothie] \<rparr>"


text \<open>An earlier order of the same user, and a store that holds it.\<close>

definition sample_order :: order where
  "sample_order =
     \<lparr> delivery_address = sample_address,
       delivery_lat = 3476 / 10000, delivery_lng = 325825 / 10000,
       payment_method = Some ''mobile_money'', order_notes = None,
       orders_id = ''order-1'', user_id = ''user-1'', order_outlet_id = ''kampala-central'',
       total_amount = 20000, delivery_fee = 8000,
       rider_info = \<lparr> rider_name = ''Kato'', phone = ''+256700123456'', rating = 48 / 10 \<rparr>,
       status = pending \<rparr>"

definition sample_lines :: "order_item list" where
  "sample_lines =
     [\<lparr> product_id = ''citrus-sunrise'', quantity_litres = 1, unit_price = 12000,
        subtotal = 12000, order_id = ''order-1'' \<rparr>]"

definition ordered_store :: store where
  "ordered_store = sample_store\<lparr> orders := [sample_order], order_items := sample_lines \<rparr>"


text \<open>A reorder to a place on the equator, paid by card.\<close>

definition equator_body :: reorder_body where
  "equator_body =
     \<lparr> new_delivery_address = None,
       new_delivery_lat = Some 0,
       new_delivery_lng = Some (326 / 10),
       new_payment_method = Some ''card'' \<rparr>"

text \<open>What the flu request below is answered for Citrus Sunrise.\<close>

definition citrus_for_flu :: recommendation where
  "citrus_for_flu =
     \<lparr> product = citrus_sunrise,
       recommendation_score = 5,
       matched_ingredients = [''orange''],
       has_avoided_ingredients = False,
       recommendation_reasons = [''Contains beneficial ingredients: orange''] \<rparr>"


section \<open>Lemmas on the recommendation controller\<close>

lemma strings_of_JArr_Cons:
  "strings_of (JArr (x # xs)) = (case x of JStr s \<Rightarrow> [s] | _ \<Rightarrow> []) @ strings_of (JArr xs)"
  by (simp add: strings_of_def)

lemma strings_of_JArr_Nil: "strings_of (JArr []) = []"
  by (simp add: strings_of_def)

lemma strings_of_not_array: "asArray v = None \<Longrightarrow> strings_of v = []"
  by (cases v) (simp_all add: strings_of_def)

lemma map_throwing_set:
  "map_throwing f xs = Some ys \<Longrightarrow> y \<in> set ys \<Longrightarrow> \<exists>x \<in> set xs. f x = Some y"
  by (induction xs arbitrary: ys) (auto split: option.splits)

lemma filter_throwing_filter:
  "filter_throwing f xs = Some ys \<Longrightarrow> ys = filter (\<lambda>x. f x = Some True) xs"
  by (induction xs arbitrary: ys) (auto split: option.splits)

lemma filter_throwing_defined:
  "filter_throwing f xs = Some ys \<Longrightarrow> x \<in> set xs \<Longrightarrow> f x \<noteq> None"
  by (induction xs arbitrary: ys) (auto split: option.splits)

lemma someAvoided_iff:
  "someAvoided A xs = Some b \<Longrightarrow> b = (\<exists>i \<in> set (strings_of (JArr xs)). toLowerCase i \<in> A)"
proof (induction A xs arbitrary: b rule: someAvoided.induct)
  case (1 A)
  then show ?case by (simp add: strings_of_JArr_Nil)
next
  case (2 A ingredient xs)
  then show ?case by (auto simp: strings_of_JArr_Cons split: if_splits)
qed simp_all

lemma noAvoided_free_of: "noAvoided A p = Some b \<Longrightarrow> b = free_of A p"
proof (cases "asArray (ingredients p)")
  case None
  then show "noAvoided A p = Some b \<Longrightarrow> b = free_of A p"
    by (auto simp: noAvoided_def free_of_def strings_of_not_array)
next
  case (Some xs)
  then have "ingredients p = JArr xs"
    by (cases "ingredients p") simp_all
  then show "noAvoided A p = Some b \<Longrightarrow> b = free_of A p"
    by (auto simp: noAvoided_def free_of_def dest: someAvoided_iff)
qed

lemma filter_noAvoided:
  assumes "filter_throwing (noAvoided A) ps = Some kept"
  shows "kept = filter (free_of A) ps"
proof -
  have "(noAvoided A p = Some True) = free_of A p" if "p \<in> set ps" for p
    using filter_throwing_defined[OF assms that] noAvoided_free_of[of A p] by auto
  then have "filter (\<lambda>p. noAvoided A p = Some True) ps = filter (free_of A) ps"
    by (intro filter_cong) auto
  with filter_throwing_filter[OF assms] show ?thesis by simp
qed

lemma scoreIngredients_flag:
  "scoreIngredients R A xs (s, m, f) = Some (s', m', f') \<Longrightarrow>
     f' = (f \<or> (\<exists>i \<in> set (strings_of (JArr xs)). toLowerCase i \<in> A))"
proof (induction R A xs "(s, m, f)" arbitrary: s m f rule: scoreIngredients.induct)
  case (1 R A)
  then show ?case by (simp add: strings_of_JArr_Nil)
next
  case (2 R A ingredient xs score matched avoided)
  then show ?case
    by (auto simp: strings_of_JArr_Cons Let_def split: if_splits)
qed simp_all

lemma scoreProduct_product: "scoreProduct R A symptoms p = Some r \<Longrightarrow> product r = p"
  by (auto simp: scoreProduct_def split: option.splits prod.splits)

lemma scoreProduct_flag:
  assumes "scoreProduct R A symptoms p = Some r"
  shows "has_avoided_ingredients r = (\<not> free_of A p)"
proof (cases "asArray (ingredients p)")
  case None
  with assms show ?thesis
    by (auto simp: scoreProduct_def free_of_def strings_of_not_array
             split: option.splits prod.splits)
next
  case (Some xs)
  then have "ingredients p = JArr xs"
    by (cases "ingredients p") simp_all
  with assms Some show ?thesis
    by (auto simp: scoreProduct_def free_of_def split: option.splits prod.splits
             dest!: scoreIngredients_flag)
qed


lemma set_randomOrder: "set (randomOrder ds xs) = set xs"
proof (induction xs arbitrary: ds)
  case Nil
  then show ?case by simp
next
  case (Cons x xs)
  have "set (take k ys) \<union> set (drop k ys) = set ys" for k and ys :: "'a list"
    by (metis append_take_drop_id set_append)
  then show ?case using Cons by (auto simp: Let_def split: list.splits)
qed

lemma addLower_eq:
  "addLower xs S = Some S' \<Longrightarrow> S' = S \<union> toLowerCase ` set (strings_of (JArr xs))"
proof (induction xs S rule: addLower.induct)
  case (1 S)
  then show ?case by (simp add: strings_of_JArr_Nil)
next
  case (2 ingredient xs S)
  then show ?case by (auto simp: strings_of_JArr_Cons)
qed simp_all

lemma addField_eq:
  assumes "addField v S = Some S'"
  shows "S' = S \<union> toLowerCase ` set (strings_of v)"
proof (cases "asArray v")
  case None
  with assms show ?thesis
    by (cases v) (auto simp: addField_def strings_of_not_array split: if_splits)
next
  case (Some xs)
  then have "v = JArr xs"
    by (cases v) simp_all
  with assms show ?thesis
    by (auto simp: addField_def dest: addLower_eq)
qed

lemma collectMappings_avoid:
  "collectMappings ms (R, A) = Some (R', A') \<Longrightarrow>
     A' = A \<union> (\<Union>m \<in> set ms. toLowerCase ` set (strings_of (avoid_ingredients m)))"
proof (induction ms "(R, A)" arbitrary: R A rule: collectMappings.induct)
  case (1 R A)
  then show ?case by simp
next
  case (2 m ms R A)
  from "2.prems" obtain R1 A1 where
    r: "addField (recommended_ingredients m) R = Some R1" and
    a: "addField (avoid_ingredients m) A = Some A1" and
    rest: "collectMappings ms (R1, A1) = Some (R', A')"
    by (auto split: option.splits)
  from "2.hyps"[OF r a rest] addField_eq[OF a] show ?case by auto
qed

lemma avoided_by_eq:
  "collectMappings ms ({}, {}) = Some (R, A0) \<Longrightarrow>
     A0 \<union> set (map toLowerCase allergies) = avoided_by ms allergies"
  by (drule collectMappings_avoid) (auto simp: avoided_by_def)

text \<open>What a success of the handler tells about the run.\<close>

lemma getRecommendations_SuccessD:
  assumes "getRecommendations e st symptoms allergies = Success n msg d"
  shows "\<exists>R sp.
           map_throwing
             (scoreProduct R (avoided_by (select_symptom_mappings (symptoms_ingredients st) symptoms) allergies) symptoms)
             (filter is_available (products st)) = Some sp
           \<and> n = 200
           \<and> (if filteredProducts sp = []
               then msg = ''No specific matches found. Here are some general recommendations.''
                    \<and> generalRecommendations (draws e)
                         (avoided_by (select_symptom_mappings (symptoms_ingredients st) symptoms) allergies)
                         (filter is_available (products st)) = Some (recommendations d)
               else msg = ''Recommendations generated successfully''
                    \<and> recommendations d = filteredProducts sp)"
  using assms unfolding getRecommendations_def Let_def
  by (auto split: if_splits option.splits prod.splits
           dest!: avoided_by_eq[where allergies = allergies])
     blast+


lemma generalRecommendations_set:
  assumes "generalRecommendations ds A ps = Some g" and "r \<in> set g"
  shows "\<not> has_avoided_ingredients r \<and> free_of A (product r) \<and> product r \<in> set ps"
proof -
  from assms(1) obtain kept where
    k: "filter_throwing (noAvoided A) ps = Some kept" and
    g: "g = map general_entry (take 3 (randomOrder ds kept))"
    by (auto simp: generalRecommendations_def)
  from assms(2) g obtain p where
    p: "p \<in> set (take 3 (randomOrder ds kept))" and
    r: "\<not> has_avoided_ingredients r" "product r = p"
    by (auto simp: general_entry_def)
  from p have "p \<in> set kept"
    using set_randomOrder[of ds kept] by (auto dest: in_set_takeD)
  with filter_noAvoided[OF k] r show ?thesis by simp
qed


lemma filteredProducts_set:
  "r \<in> set (filteredProducts sp) \<Longrightarrow>
     r \<in> set sp \<and> \<not> has_avoided_ingredients r \<and> 0 < recommendation_score r"
  by (auto simp: filteredProducts_def dest!: in_set_takeD)

lemma scoreSymptoms_eq:
  "scoreSymptoms lb ss sc = sc + 3 * int (length (filter (benefitMatches lb) ss))"
  by (induction ss arbitrary: sc) auto

lemma scoreBenefits_eq:
  "scoreBenefits ss bs sc = Some sc' \<Longrightarrow>
     sc' = sc + 3 * int (length (filter (\<lambda>(b, s). benefitMatches (toLowerCase b) s)
                                    (List.product (strings_of (JArr bs)) ss)))"
proof (induction ss bs sc rule: scoreBenefits.induct)
  case (1 symptoms score)
  then show ?case by (simp add: strings_of_JArr_Nil)
next
  case (2 symptoms benefit bs score)
  have "length (filter (\<lambda>(b, s). benefitMatches (toLowerCase b) s) (map (Pair benefit) symptoms))
          = length (filter (benefitMatches (toLowerCase benefit)) symptoms)"
    by (simp add: filter_map comp_def)
  with 2 show ?case
    by (simp add: strings_of_JArr_Cons scoreSymptoms_eq)
qed simp_all



section \<open>Lemmas on the order controller\<close>





section \<open>Properties\<close>

subsection \<open>Order total\<close>



subsection \<open>Compensating delete\<close>




subsection \<open>Allergens are never surfaced\<close>

text \<open>
  C3. For every request, no recommendation in the returned list, on the scored path or
  on the fallback path, has an ingredient that equals, case-folded, one of the caller's
  allergies; and no returned recommendation has has_avoided_ingredients set. The
  ingredients of a product are the strings of its ingredients array.
\<close>

theorem recommendations_free_of_allergens:
  assumes "r \<in> set (answers (getRecommendations e st symptoms allergies))"
  shows "\<not> has_avoided_ingredients r
         \<and> (\<forall>i \<in> set (strings_of (ingredients (product r))).
              toLowerCase i \<notin> set (map toLowerCase allergies))"
proof -
  from assms obtain n msg d where
    run: "getRecommendations e st symptoms allergies = Success n msg d" and
    r: "r \<in> set (recommendations d)"
    by (cases "getRecommendations e st symptoms allergies") auto
  define A where "A = avoided_by (select_symptom_mappings (symptoms_ingredients st) symptoms) allergies"
  have sub: "set (map toLowerCase allergies) \<subseteq> A"
    by (auto simp: A_def avoided_by_def)
  from getRecommendations_SuccessD[OF run] obtain R sp where
    sp: "map_throwing (scoreProduct R A symptoms) (filter is_available (products st)) = Some sp" and
    alt: "if filteredProducts sp = []
          then generalRecommendations (draws e) A (filter is_available (products st))
                 = Some (recommendations d)
          else recommendations d = filteredProducts sp"
    unfolding A_def by (auto split: if_splits)
  have "\<not> has_avoided_ingredients r \<and> free_of A (product r)"
  proof (cases "filteredProducts sp = []")
    case True
    with alt r show ?thesis
      by (auto dest: generalRecommendations_set)
  next
    case False
    with alt r have in_sp: "r \<in> set sp" and clean: "\<not> has_avoided_ingredients r"
      by (auto dest: filteredProducts_set)
    from map_throwing_set[OF sp in_sp] obtain p where
      "scoreProduct R A symptoms p = Some r" by auto
    with clean show ?thesis
      using scoreProduct_flag scoreProduct_product by fastforce
  qed
  with sub show ?thesis
    by (auto simp: free_of_def)
qed

theorem recommendations_free_of_allergens_witness:
  "citrus_for_flu
     \<in> set (answers (getRecommendations sample_env sample_store [''Flu''] [''GINGER'']))
   \<and> map (name \<circ> product)
        (answers (getRecommendations sample_env sample_store [''Flu''] [''GINGER'']))
      = [''Green Revitalizer'', ''Citrus Sunrise'']
   \<and> \<not> has_avoided_ingredients citrus_for_flu
   \<and> toLowerCase ''orange'' \<notin> set (map toLowerCase [''GINGER''])"
proof -
  have h: "citrus_for_flu
             \<in> set (answers (getRecommendations sample_env sample_store [''Flu''] [''GINGER'']))"
    by code_simp
  have names: "map (name \<circ> product)
                 (answers (getRecommendations sample_env sample_store [''Flu''] [''GINGER'']))
               = [''Green Revitalizer'', ''Citrus Sunrise'']"
    by code_simp
  have orange: "''orange'' \<in> set (strings_of (ingredients (product citrus_for_flu)))"
    by code_simp
  from recommendations_free_of_allergens[OF h] orange h names show ?thesis
    by blast
qed

subsection \<open>Delivery fee\<close>

text \<open>
  C4. For every distance, the delivery fee is 2000 + 2000 * ceil(distance), a whole
  number of currency units; a distance of 0.1 km costs as much as 1.0 km, namely 4000,
  and 2.0 km costs 6000.
\<close>

theorem calculateDeliveryFee_ceil:
  "calculateDeliveryFee d = 2000 + 2000 * of_int \<lceil>d\<rceil>
   \<and> calculateDeliveryFee d \<in> \<int>
   \<and> calculateDeliveryFee (1 / 10) = 4000
   \<and> calculateDeliveryFee 1 = 4000
   \<and> calculateDeliveryFee 2 = 6000"
proof -
  have "\<lceil>1 / 10 :: rat\<rceil> = 1"
    by (simp add: ceiling_eq_iff)
  then show ?thesis
    by (simp add: calculateDeliveryFee_def Math_ceil_def)
qed

subsection \<open>Cancellation\<close>



subsection \<open>Length of the answer\<close>




subsection \<open>The fallback and the random draws\<close>




subsection \<open>Looking up the symptom mappings\<close>




subsection \<open>Reorder\<close>

text \<open>
  C9. Reorder is to use each value the caller supplies. The code takes a supplied
  latitude or longitude of 0 for absent: a reorder to latitude 0, longitude 32.6, paid by
  card, is placed at the latitude of the original order, 0.3476, with the new longitude
  and the new payment method, and with the items of the original order at today's prices.
\<close>

theorem reorder_zero_latitude:
  "new_delivery_lat equator_body = Some 0
   \<and> delivery_lat (newOrderData sample_order sample_lines equator_body) = 3476 / 10000
   \<and> delivery_lng (newOrderData sample_order sample_lines equator_body) = 326 / 10
   \<and> payment_method (newOrderData sample_order sample_lines equator_body) = Some ''card''
   \<and> items (newOrderData sample_order sample_lines equator_body)
       = [\<lparr> product_id = ''citrus-sunrise'', quantity_litres = 1 \<rparr>]
   \<and> map (\<lambda>r. (orders_id r, delivery_lat r, delivery_lng r, total_amount r))
        (orders (snd (reorder sample_env ordered_store ''user-1'' ''order-1'' equator_body)))
      = [(''order-1'', 3476 / 10000, 325825 / 10000, 20000),
         (''order-2'', 3476 / 10000, 326 / 10, 20000)]"
  by code_simp

subsection \<open>Ingredients that are not an array\<close>

text \<open>
  C10. An available product whose ingredients value is absent or not an array is kept by
  the fallback's filter whatever the avoid set is, so also when the allergies name what
  the product holds; and when it is scored it is never flagged, matches no ingredient,
  and its score is three points for every health benefit and symptom whose texts
  contain one another.
\<close>

theorem non_array_ingredients_unchecked:
  assumes "asArray (ingredients p) = None"
  shows "noAvoided A p = Some True
         \<and> (\<forall>kept. filter_throwing (noAvoided A) ps = Some kept \<and> p \<in> set ps \<longrightarrow> p \<in> set kept)
         \<and> (\<forall>r. scoreProduct R A symptoms p = Some r \<longrightarrow>
                \<not> has_avoided_ingredients r
                \<and> matched_ingredients r = []
                \<and> recommendation_score r = 3 * int (text_matches symptoms p))"
proof -
  have keep: "noAvoided A p = Some True"
    using assms by (simp add: noAvoided_def)
  have kept: "p \<in> set kept" if "filter_throwing (noAvoided A) ps = Some kept" "p \<in> set ps" for kept
    using filter_throwing_filter[OF that(1)] that(2) keep by simp
  have score: "\<not> has_avoided_ingredients r \<and> matched_ingredients r = []
               \<and> recommendation_score r = 3 * int (text_matches symptoms p)"
    if r: "scoreProduct R A symptoms p = Some r" for r
  proof (cases "asArray (health_benefits p)")
    case None
    then have "strings_of (health_benefits p) = []"
      by (rule strings_of_not_array)
    with r assms None show ?thesis
      by (auto simp: scoreProduct_def text_matches_def split: option.splits)
  next
    case (Some bs)
    then have hb: "health_benefits p = JArr bs"
      by (cases "health_benefits p") simp_all
    from r assms Some obtain sc where
      "scoreBenefits symptoms bs 0 = Some sc" and
      "recommendation_score r = sc" "\<not> has_avoided_ingredients r" "matched_ingredients r = []"
      by (auto simp: scoreProduct_def split: option.splits)
    with scoreBenefits_eq[of symptoms bs 0 sc] hb show ?thesis
      by (simp add: text_matches_def)
  qed
  from keep kept score show ?thesis by blast
qed

theorem non_array_ingredients_unchecked_witness:
  "asArray (ingredients peanut_smoothie) = None
   \<and> noAvoided (set [''peanut'']) peanut_smoothie = Some True
   \<and> map (name \<circ> product)
        (answers (getRecommendations sample_env peanut_store [''insomnia''] [''peanut'']))
      = [''Peanut Smoothie'']
   \<and> map (\<lambda>r. (recommendation_score r, has_avoided_ingredients r))
        (answers (getRecommendations sample_env peanut_store [''Energy''] [''peanut'']))
      = [(3, False)]
   \<and> text_matches [''Energy''] peanut_smoothie = 1"
proof -
  have h: "asArray (ingredients peanut_smoothie) = None"
    by code_simp
  have general: "map (name \<circ> product)
        (answers (getRecommendations sample_env peanut_store [''insomnia''] [''peanut'']))
      = [''Peanut Smoothie'']"
    by code_simp
  have scored: "map (\<lambda>r. (recommendation_score r, has_avoided_ingredients r))
        (answers (getRecommendations sample_env peanut_store [''Energy''] [''peanut'']))
      = [(3, False)]"
    by code_simp
  have one: "text_matches [''Energy''] peanut_smoothie = 1"
    by code_simp
  from non_array_ingredients_unchecked[OF h, of "set [''peanut'']"] h general scored one
  show ?thesis
    by blast
qed

end
